theory Spec2Isabelle
  imports Complex_Main
begin

section \<open>Values shared by the two services\<close>

text \<open>
  Python text is kept as its UTF-8 bytes in a \<open>string\<close>: the handlers only compare,
  store and concatenate text, and UTF-8 encoding is injective and commutes with
  concatenation. The Russian literals of the source are written byte by byte.
  A \<open>datetime\<close> is an opaque stamp.

  A Python \<open>int\<close> is unbounded, an INTEGER column of the database is a signed 64-bit
  integer: handing the database an integer outside that range raises OverflowError,
  which no handler catches (the response is HTTP 500). A Python \<open>float\<close> is a finite
  number, an infinity or NaN; the handlers only store and return it.
\<close>

type_synonym datetime = int

datatype error =
    HTTPException int string
  | AttributeError
  | IntegrityError
  | OverflowError
  | ResponseValidationError

datatype pyfloat = Finite real | PosInf | NegInf | NaN

definition int64 :: "int \<Rightarrow> bool" where
  "int64 i \<longleftrightarrow> - 9223372036854775808 \<le> i \<and> i \<le> 9223372036854775807"

text \<open>
  A table is the list of its rows in insertion order; every ORM class has an integer
  primary key \<open>id\<close>. \<open>session_get\<close> is \<open>session.get(Model, id)\<close>: the id is handed to
  the database, which raises for an id outside the 64-bit range and otherwise gives
  the row with that key, or \<open>None\<close>. \<open>next_id\<close> is the key the database gives an
  inserted row that carries none: one more than the largest key in use, 1 on an empty
  table (the rowid rule of SQLite, the default \<open>DATABASE_URL\<close> of both services; it
  applies while the largest key is below 9223372036854775807, as in every table that
  is filled through these handlers).
\<close>

definition session_get :: "('r \<Rightarrow> int) \<Rightarrow> 'r list \<Rightarrow> int \<Rightarrow> error + 'r option" where
  "session_get pk rows i =
     (if int64 i then Inr (find (\<lambda>r. pk r = i) rows) else Inl OverflowError)"

definition next_id :: "int list \<Rightarrow> int" where
  "next_id ids = fold max ids 0 + 1"

definition session_delete :: "('r \<Rightarrow> int) \<Rightarrow> 'r list \<Rightarrow> int \<Rightarrow> 'r list" where
  "session_delete pk rows i = filter (\<lambda>r. pk r \<noteq> i) rows"

section \<open>Reference Data Service (reference\_data\_service.py)\<close>

text \<open>
  Field names carry the initials of their class, since several classes of the source
  share the names \<open>id\<close>, \<open>name\<close>, \<open>status\<close> and \<open>description\<close>:
  \<open>sc\<close> ServiceCreate, \<open>sm\<close> ServiceModel, \<open>s\<close> Service, \<open>ec\<close> EmployeeCreate,
  \<open>em\<close> EmployeeModel.
  The response schemas \<open>Service\<close> and \<open>Employee\<close> have exactly the columns of the ORM
  classes under the same names. An employee's response is the row the handler returns.
  A service's response is the row with its price as the JSON body carries it: a number,
  or \<open>null\<close> (here \<open>None\<close>) for a price that is not finite.
\<close>

record ServiceCreate =
  sc_name :: string
  sc_price :: pyfloat
  sc_duration_minutes :: int

record ServiceModel =
  sm_id :: int
  sm_name :: string
  sm_price :: pyfloat
  sm_duration_minutes :: int

record Service =
  s_id :: int
  s_name :: string
  s_price :: "real option"
  s_duration_minutes :: int

record EmployeeCreate =
  ec_full_name :: string
  ec_position :: string

record EmployeeModel =
  em_id :: int
  em_full_name :: string
  em_position :: string

record ReferenceDB =
  services :: "ServiceModel list"
  employees :: "EmployeeModel list"

text \<open>The messages of the handlers, lines 115/158, 148/170, 161 and 173.\<close>

definition service_not_found :: string where
  "service_not_found =
     [CHR 0xD0, CHR 0xA3, CHR 0xD1, CHR 0x81, CHR 0xD0, CHR 0xBB, CHR 0xD1, CHR 0x83,
      CHR 0xD0, CHR 0xB3, CHR 0xD0, CHR 0xB0, CHR 0x20, CHR 0xD0, CHR 0xBD, CHR 0xD0,
      CHR 0xB5, CHR 0x20, CHR 0xD0, CHR 0xBD, CHR 0xD0, CHR 0xB0, CHR 0xD0, CHR 0xB9,
      CHR 0xD0, CHR 0xB4, CHR 0xD0, CHR 0xB5, CHR 0xD0, CHR 0xBD, CHR 0xD0, CHR 0xB0]"

definition employee_not_found :: string where
  "employee_not_found =
     [CHR 0xD0, CHR 0xA1, CHR 0xD0, CHR 0xBE, CHR 0xD1, CHR 0x82, CHR 0xD1, CHR 0x80,
      CHR 0xD1, CHR 0x83, CHR 0xD0, CHR 0xB4, CHR 0xD0, CHR 0xBD, CHR 0xD0, CHR 0xB8,
      CHR 0xD0, CHR 0xBA, CHR 0x20, CHR 0xD0, CHR 0xBD, CHR 0xD0, CHR 0xB5, CHR 0x20,
      CHR 0xD0, CHR 0xBD, CHR 0xD0, CHR 0xB0, CHR 0xD0, CHR 0xB9, CHR 0xD0, CHR 0xB4,
      CHR 0xD0, CHR 0xB5, CHR 0xD0, CHR 0xBD]"

definition service_deleted :: string where
  "service_deleted =
     [CHR 0xD0, CHR 0xA3, CHR 0xD1, CHR 0x81, CHR 0xD0, CHR 0xBB, CHR 0xD1, CHR 0x83,
      CHR 0xD0, CHR 0xB3, CHR 0xD0, CHR 0xB0, CHR 0x20, CHR 0xD1, CHR 0x83, CHR 0xD1,
      CHR 0x81, CHR 0xD0, CHR 0xBF, CHR 0xD0, CHR 0xB5, CHR 0xD1, CHR 0x88, CHR 0xD0,
      CHR 0xBD, CHR 0xD0, CHR 0xBE, CHR 0x20, CHR 0xD1, CHR 0x83, CHR 0xD0, CHR 0xB4,
      CHR 0xD0, CHR 0xB0, CHR 0xD0, CHR 0xBB, CHR 0xD0, CHR 0xB5, CHR 0xD0, CHR 0xBD,
      CHR 0xD0, CHR 0xB0]"

definition employee_deleted :: string where
  "employee_deleted =
     [CHR 0xD0, CHR 0xA1, CHR 0xD0, CHR 0xBE, CHR 0xD1, CHR 0x82, CHR 0xD1, CHR 0x80,
      CHR 0xD1, CHR 0x83, CHR 0xD0, CHR 0xB4, CHR 0xD0, CHR 0xBD, CHR 0xD0, CHR 0xB8,
      CHR 0xD0, CHR 0xBA, CHR 0x20, CHR 0xD1, CHR 0x83, CHR 0xD1, CHR 0x81, CHR 0xD0,
      CHR 0xBF, CHR 0xD0, CHR 0xB5, CHR 0xD1, CHR 0x88, CHR 0xD0, CHR 0xBD, CHR 0xD0,
      CHR 0xBE, CHR 0x20, CHR 0xD1, CHR 0x83, CHR 0xD0, CHR 0xB4, CHR 0xD0, CHR 0xB0,
      CHR 0xD0, CHR 0xBB, CHR 0xD0, CHR 0xB5, CHR 0xD0, CHR 0xBD]"

text \<open>
  Each handler takes the database and returns its response together with the database
  as committed. \<open>if not service\<close> tests for \<open>None\<close>: an ORM instance is always truthy.
  A delete answers \<open>{"success": True, "message": ...}\<close>, the pair below.
\<close>

fun json_float :: "pyfloat \<Rightarrow> real option" where
  "json_float (Finite x) = Some x"
| "json_float _ = None"

definition Service_response :: "ServiceModel \<Rightarrow> Service" where
  "Service_response service =
     \<lparr>s_id = sm_id service,
      s_name = sm_name service,
      s_price = json_float (sm_price service),
      s_duration_minutes = sm_duration_minutes service\<rparr>"

text \<open>
  The commit of \<open>create_service\<close> (line 95) inserts the row. Binding a
  \<open>duration_minutes\<close> outside the 64-bit range raises OverflowError; a NaN price is
  stored as NULL, which the NOT NULL column \<open>price\<close> rejects. Either way nothing is
  stored.
\<close>

definition create_service ::
  "ServiceCreate \<Rightarrow> ReferenceDB \<Rightarrow> (error + Service) \<times> ReferenceDB" where
  "create_service new_service db =
     (if \<not> int64 (sc_duration_minutes new_service) then (Inl OverflowError, db)
      else if sc_price new_service = NaN then (Inl IntegrityError, db)
      else
        (let service = \<lparr>sm_id = next_id (map sm_id (services db)),
                        sm_name = sc_name new_service,
                        sm_price = sc_price new_service,
                        sm_duration_minutes = sc_duration_minutes new_service\<rparr>
         in (Inr (Service_response service), db\<lparr>services := services db @ [service]\<rparr>)))"

definition get_all_services :: "ReferenceDB \<Rightarrow> Service list" where
  "get_all_services db = map Service_response (services db)"

definition get_service_by_id :: "int \<Rightarrow> ReferenceDB \<Rightarrow> error + Service" where
  "get_service_by_id service_id db =
     (case session_get sm_id (services db) service_id of
        Inl e \<Rightarrow> Inl e
      | Inr None \<Rightarrow> Inl (HTTPException 404 service_not_found)
      | Inr (Some service) \<Rightarrow> Inr (Service_response service))"

definition create_employee :: "EmployeeCreate \<Rightarrow> ReferenceDB \<Rightarrow> EmployeeModel \<times> ReferenceDB" where
  "create_employee new_employee db =
     (let employee = \<lparr>em_id = next_id (map em_id (employees db)),
                      em_full_name = ec_full_name new_employee,
                      em_position = ec_position new_employee\<rparr>
      in (employee, db\<lparr>employees := employees db @ [employee]\<rparr>))"

definition get_all_employees :: "ReferenceDB \<Rightarrow> EmployeeModel list" where
  "get_all_employees db = employees db"

definition get_employee_by_id :: "int \<Rightarrow> ReferenceDB \<Rightarrow> error + EmployeeModel" where
  "get_employee_by_id employee_id db =
     (case session_get em_id (employees db) employee_id of
        Inl e \<Rightarrow> Inl e
      | Inr None \<Rightarrow> Inl (HTTPException 404 employee_not_found)
      | Inr (Some employee) \<Rightarrow> Inr employee)"

definition delete_service :: "int \<Rightarrow> ReferenceDB \<Rightarrow> (error + bool \<times> string) \<times> ReferenceDB" where
  "delete_service service_id db =
     (case session_get sm_id (services db) service_id of
        Inl e \<Rightarrow> (Inl e, db)
      | Inr None \<Rightarrow> (Inl (HTTPException 404 service_not_found), db)
      | Inr (Some service) \<Rightarrow>
          (Inr (True, service_deleted),
           db\<lparr>services := session_delete sm_id (services db) (sm_id service)\<rparr>))"

definition delete_employee :: "int \<Rightarrow> ReferenceDB \<Rightarrow> (error + bool \<times> string) \<times> ReferenceDB" where
  "delete_employee employee_id db =
     (case session_get em_id (employees db) employee_id of
        Inl e \<Rightarrow> (Inl e, db)
      | Inr None \<Rightarrow> (Inl (HTTPException 404 employee_not_found), db)
      | Inr (Some employee) \<Rightarrow>
          (Inr (True, employee_deleted),
           db\<lparr>employees := session_delete em_id (employees db) (em_id employee)\<rparr>))"

section \<open>Repair Order Service (repair\_order\_service.py)\<close>

subsection \<open>Tables and schemas\<close>

text \<open>
  Initials: \<open>rom\<close> RepairOrderModel, \<open>ros\<close> RepairOrderServiceModel, \<open>roc\<close>
  RepairOrderCreate, \<open>rou\<close> RepairOrderUpdate, \<open>ro\<close> RepairOrder (the response schema).
  The tables carry their \<open>__tablename__\<close>. The relationship \<open>services\<close> of an order
  (line 51) is not a column: it is the list of association rows whose
  \<open>repair_order_id\<close> is the order's id, read from the association table when loaded.
\<close>

record RepairOrderModel =
  rom_id :: int
  rom_client_name :: string
  rom_client_phone :: string
  rom_car_make :: string
  rom_car_model :: string
  rom_car_plate :: string
  rom_employee_id :: int
  rom_status :: string
  rom_created_at :: datetime
  rom_description :: "string option"

record RepairOrderServiceModel =
  ros_id :: int
  ros_service_id :: int
  ros_repair_order_id :: int

record RepairOrderDB =
  repair_orders :: "RepairOrderModel list"
  repair_order_services :: "RepairOrderServiceModel list"

record RepairOrderCreate =
  roc_client_name :: string
  roc_client_phone :: string
  roc_car_make :: string
  roc_car_model :: string
  roc_car_plate :: string
  roc_service_ids :: "int list"
  roc_employee_id :: int
  roc_description :: "string option"

record RepairOrderUpdate =
  rou_status :: "string option"
  rou_description :: "string option"

record RepairOrder =
  ro_id :: int
  ro_client_name :: string
  ro_client_phone :: string
  ro_car_make :: string
  ro_car_model :: string
  ro_car_plate :: string
  ro_employee_id :: int
  ro_status :: string
  ro_created_at :: datetime
  ro_description :: "string option"
  ro_service_ids :: "int list"

text \<open>The literals of lines 154, 194/207/225, 231, 144 and 146.\<close>

definition status_new :: string where
  "status_new =
     [CHR 0xD0, CHR 0x9D, CHR 0xD0, CHR 0xBE, CHR 0xD0, CHR 0xB2, CHR 0xD1, CHR 0x8B,
      CHR 0xD0, CHR 0xB9]"

definition repair_order_not_found :: string where
  "repair_order_not_found =
     [CHR 0xD0, CHR 0x97, CHR 0xD0, CHR 0xB0, CHR 0xD0, CHR 0xBA, CHR 0xD0, CHR 0xB0,
      CHR 0xD0, CHR 0xB7, CHR 0x2D, CHR 0xD0, CHR 0xBD, CHR 0xD0, CHR 0xB0, CHR 0xD1,
      CHR 0x80, CHR 0xD1, CHR 0x8F, CHR 0xD0, CHR 0xB4, CHR 0x20, CHR 0xD0, CHR 0xBD,
      CHR 0xD0, CHR 0xB5, CHR 0x20, CHR 0xD0, CHR 0xBD, CHR 0xD0, CHR 0xB0, CHR 0xD0,
      CHR 0xB9, CHR 0xD0, CHR 0xB4, CHR 0xD0, CHR 0xB5, CHR 0xD0, CHR 0xBD]"

definition repair_order_deleted :: string where
  "repair_order_deleted =
     [CHR 0xD0, CHR 0x97, CHR 0xD0, CHR 0xB0, CHR 0xD0, CHR 0xBA, CHR 0xD0, CHR 0xB0,
      CHR 0xD0, CHR 0xB7, CHR 0x2D, CHR 0xD0, CHR 0xBD, CHR 0xD0, CHR 0xB0, CHR 0xD1,
      CHR 0x80, CHR 0xD1, CHR 0x8F, CHR 0xD0, CHR 0xB4, CHR 0x20, CHR 0xD1, CHR 0x83,
      CHR 0xD1, CHR 0x81, CHR 0xD0, CHR 0xBF, CHR 0xD0, CHR 0xB5, CHR 0xD1, CHR 0x88,
      CHR 0xD0, CHR 0xBD, CHR 0xD0, CHR 0xBE, CHR 0x20, CHR 0xD1, CHR 0x83, CHR 0xD0,
      CHR 0xB4, CHR 0xD0, CHR 0xB0, CHR 0xD0, CHR 0xBB, CHR 0xD0, CHR 0xB5, CHR 0xD0,
      CHR 0xBD]"

definition reference_service_error :: string where
  "reference_service_error =
     [CHR 0xD0, CHR 0x9E, CHR 0xD1, CHR 0x88, CHR 0xD0, CHR 0xB8, CHR 0xD0, CHR 0xB1,
      CHR 0xD0, CHR 0xBA, CHR 0xD0, CHR 0xB0, CHR 0x20, CHR 0xD0, CHR 0xA1, CHR 0xD0,
      CHR 0xB5, CHR 0xD1, CHR 0x80, CHR 0xD0, CHR 0xB2, CHR 0xD0, CHR 0xB8, CHR 0xD1,
      CHR 0x81, CHR 0xD0, CHR 0xB0, CHR 0x20, CHR 0xD0, CHR 0xA1, CHR 0xD0, CHR 0xBF,
      CHR 0xD1, CHR 0x80, CHR 0xD0, CHR 0xB0, CHR 0xD0, CHR 0xB2, CHR 0xD0, CHR 0xBE,
      CHR 0xD1, CHR 0x87, CHR 0xD0, CHR 0xBD, CHR 0xD0, CHR 0xB8, CHR 0xD0, CHR 0xBA,
      CHR 0xD0, CHR 0xBE, CHR 0xD0, CHR 0xB2, CHR 0x3A, CHR 0x20]"

definition reference_connection_error :: string where
  "reference_connection_error =
     [CHR 0xD0, CHR 0x9E, CHR 0xD1, CHR 0x88, CHR 0xD0, CHR 0xB8, CHR 0xD0, CHR 0xB1,
      CHR 0xD0, CHR 0xBA, CHR 0xD0, CHR 0xB0, CHR 0x20, CHR 0xD1, CHR 0x81, CHR 0xD0,
      CHR 0xB2, CHR 0xD1, CHR 0x8F, CHR 0xD0, CHR 0xB7, CHR 0xD0, CHR 0xB8, CHR 0x20,
      CHR 0xD1, CHR 0x81, CHR 0x20, CHR 0xD0, CHR 0xA1, CHR 0xD0, CHR 0xB5, CHR 0xD1,
      CHR 0x80, CHR 0xD0, CHR 0xB2, CHR 0xD0, CHR 0xB8, CHR 0xD1, CHR 0x81, CHR 0xD0,
      CHR 0xBE, CHR 0xD0, CHR 0xBC, CHR 0x20, CHR 0xD0, CHR 0xA1, CHR 0xD0, CHR 0xBF,
      CHR 0xD1, CHR 0x80, CHR 0xD0, CHR 0xB0, CHR 0xD0, CHR 0xB2, CHR 0xD0, CHR 0xBE,
      CHR 0xD1, CHR 0x87, CHR 0xD0, CHR 0xBD, CHR 0xD0, CHR 0xB8, CHR 0xD0, CHR 0xBA,
      CHR 0xD0, CHR 0xBE, CHR 0xD0, CHR 0xB2, CHR 0x3A, CHR 0x20]"

subsection \<open>The response schema and its serializer\<close>

text \<open>
  The Python values the serializer of \<open>service_ids\<close> can be handed: \<open>PyRow\<close> is an
  instance of \<open>RepairOrderServiceModel\<close>, the only class here with an attribute
  \<open>service_id\<close>; \<open>PyList\<close> is a list (or an instance of a subclass of list);
  \<open>PyTuple\<close> stands for the collections that are not lists.
\<close>

datatype pyval =
    PyNone
  | PyInt int
  | PyStr string
  | PyDatetime datetime
  | PyList "pyval list"
  | PyTuple "pyval list"
  | PyRow RepairOrderServiceModel

text \<open>
  \<open>service_model.service_id\<close> on one element, and the list comprehension of line 107,
  which evaluates left to right and stops at the first element that raises.
\<close>

fun getattr_service_id :: "pyval \<Rightarrow> error + int" where
  "getattr_service_id (PyRow service_model) = Inr (ros_service_id service_model)"
| "getattr_service_id _ = Inl AttributeError"

fun service_id_comprehension :: "pyval list \<Rightarrow> error + int list" where
  "service_id_comprehension [] = Inr []"
| "service_id_comprehension (service_model # rest) =
     (case getattr_service_id service_model of
        Inl e \<Rightarrow> Inl e
      | Inr i \<Rightarrow>
          (case service_id_comprehension rest of
             Inl e \<Rightarrow> Inl e
           | Inr ids \<Rightarrow> Inr (i # ids)))"

fun serialize_service_ids :: "pyval \<Rightarrow> error + int list" where
  "serialize_service_ids (PyList services_relationship) =
     service_id_comprehension services_relationship"
| "serialize_service_ids _ = Inr []"

text \<open>
  \<open>isinstance(v, list)\<close>, and whether a value is an association row.
\<close>

fun is_list :: "pyval \<Rightarrow> bool" where
  "is_list (PyList _) = True"
| "is_list _ = False"

fun is_row :: "pyval \<Rightarrow> bool" where
  "is_row (PyRow _) = True"
| "is_row _ = False"

text \<open>
  A handler returns the ORM instance and declares \<open>-> RepairOrder\<close>; the schema is built
  with \<open>from_attributes=True\<close>, that is, every field is read from the attribute of the
  same name. \<open>RepairOrderModel_attributes\<close> lists the attributes of an instance whose
  relationship is loaded: the ten columns of lines 40--49 and \<open>services\<close> of line 51.
  The first ten fields of the schema (lines 89--98) find their columns. The field
  \<open>service_ids\<close> (line 100) has no alias and the instance has no attribute of that
  name, so the field takes its default \<open>[]\<close>; a value found there would have to
  validate as \<open>List[int]\<close>. The serializer then runs on the field's value.
\<close>

definition RepairOrderModel_attributes ::
  "RepairOrderModel \<Rightarrow> RepairOrderServiceModel list \<Rightarrow> (string \<times> pyval) list" where
  "RepairOrderModel_attributes order services_relationship =
     [(''id'', PyInt (rom_id order)),
      (''client_name'', PyStr (rom_client_name order)),
      (''client_phone'', PyStr (rom_client_phone order)),
      (''car_make'', PyStr (rom_car_make order)),
      (''car_model'', PyStr (rom_car_model order)),
      (''car_plate'', PyStr (rom_car_plate order)),
      (''employee_id'', PyInt (rom_employee_id order)),
      (''status'', PyStr (rom_status order)),
      (''created_at'', PyDatetime (rom_created_at order)),
      (''description'', (case rom_description order of None \<Rightarrow> PyNone | Some d \<Rightarrow> PyStr d)),
      (''services'', PyList (map PyRow services_relationship))]"

definition getattr ::
  "RepairOrderModel \<Rightarrow> RepairOrderServiceModel list \<Rightarrow> string \<Rightarrow> pyval option" where
  "getattr order services_relationship name =
     map_of (RepairOrderModel_attributes order services_relationship) name"

fun is_int :: "pyval \<Rightarrow> bool" where
  "is_int (PyInt _) = True"
| "is_int _ = False"

fun validate_List_int :: "pyval \<Rightarrow> error + pyval" where
  "validate_List_int (PyList xs) =
     (if list_all is_int xs then Inr (PyList xs) else Inl ResponseValidationError)"
| "validate_List_int _ = Inl ResponseValidationError"

definition field_service_ids ::
  "RepairOrderModel \<Rightarrow> RepairOrderServiceModel list \<Rightarrow> error + pyval" where
  "field_service_ids order services_relationship =
     (case getattr order services_relationship ''service_ids'' of
        None \<Rightarrow> Inr (PyList [])
      | Some v \<Rightarrow> validate_List_int v)"

definition RepairOrder_response ::
  "RepairOrderModel \<Rightarrow> RepairOrderServiceModel list \<Rightarrow> error + RepairOrder" where
  "RepairOrder_response order services_relationship =
     (case field_service_ids order services_relationship of
        Inl e \<Rightarrow> Inl e
      | Inr field \<Rightarrow>
          (case serialize_service_ids field of
             Inl e \<Rightarrow> Inl e
           | Inr ids \<Rightarrow>
               Inr \<lparr>ro_id = rom_id order,
                    ro_client_name = rom_client_name order,
                    ro_client_phone = rom_client_phone order,
                    ro_car_make = rom_car_make order,
                    ro_car_model = rom_car_model order,
                    ro_car_plate = rom_car_plate order,
                    ro_employee_id = rom_employee_id order,
                    ro_status = rom_status order,
                    ro_created_at = rom_created_at order,
                    ro_description = rom_description order,
                    ro_service_ids = ids\<rparr>))"

text \<open>
  Loading the relationship \<open>services\<close> of an order (\<open>selectinload\<close>, or \<open>refresh\<close> with
  \<open>attribute_names=["services"]\<close>).
\<close>

definition load_services :: "RepairOrderDB \<Rightarrow> int \<Rightarrow> RepairOrderServiceModel list" where
  "load_services db repair_order_id =
     filter (\<lambda>entry. ros_repair_order_id entry = repair_order_id) (repair_order_services db)"

subsection \<open>Validation against the Reference Data Service\<close>

text \<open>
  \<open>requests.get\<close> on one of the two URLs of lines 138 and 140 either returns a
  response or raises a \<open>RequestException\<close>, which may or may not carry a response and
  has a text \<open>str(e)\<close>. The remote side is a parameter of the handler.
  \<open>raise_for_status\<close> raises \<open>HTTPError\<close>, carrying the response, exactly for the
  status codes 400 to 599.
\<close>

datatype lookup = GetService int | GetEmployee int

record Response =
  status_code :: int
  response_text :: string

datatype requests_exception =
    HTTPError Response
  | RequestException "Response option" string

type_synonym remote = "lookup \<Rightarrow> requests_exception + Response"

definition raise_for_status :: "Response \<Rightarrow> requests_exception + unit" where
  "raise_for_status response =
     (if 400 \<le> status_code response \<and> status_code response < 600
      then Inl (HTTPError response) else Inr ())"

text \<open>The loop of lines 137--139, then the body of the \<open>try\<close> (lines 137--141).\<close>

fun validate_service_ids :: "remote \<Rightarrow> int list \<Rightarrow> requests_exception + unit" where
  "validate_service_ids requests_get [] = Inr ()"
| "validate_service_ids requests_get (service_id # rest) =
     (case requests_get (GetService service_id) of
        Inl e \<Rightarrow> Inl e
      | Inr response \<Rightarrow>
          (case raise_for_status response of
             Inl e \<Rightarrow> Inl e
           | Inr _ \<Rightarrow> validate_service_ids requests_get rest))"

definition validate_references :: "remote \<Rightarrow> RepairOrderCreate \<Rightarrow> requests_exception + unit" where
  "validate_references requests_get repair_order_data =
     (case validate_service_ids requests_get (roc_service_ids repair_order_data) of
        Inl e \<Rightarrow> Inl e
      | Inr _ \<Rightarrow>
          (case requests_get (GetEmployee (roc_employee_id repair_order_data)) of
             Inl e \<Rightarrow> Inl e
           | Inr response \<Rightarrow> raise_for_status response))"

text \<open>
  The \<open>except\<close> clause of lines 142--146: an exception that carries a response becomes
  an \<open>HTTPException\<close> with the response's status code and text, any other one becomes
  status 500 with \<open>str(e)\<close>.
\<close>

fun upstream_failure :: "requests_exception \<Rightarrow> error" where
  "upstream_failure (HTTPError response) =
     HTTPException (status_code response) (reference_service_error @ response_text response)"
| "upstream_failure (RequestException (Some response) msg) =
     HTTPException (status_code response) (reference_service_error @ response_text response)"
| "upstream_failure (RequestException None msg) =
     HTTPException 500 (reference_connection_error @ msg)"

subsection \<open>The handlers\<close>

text \<open>Lines 160--166: one association row per requested service id, in request order.\<close>

fun add_service_entries ::
  "int list \<Rightarrow> int \<Rightarrow> RepairOrderServiceModel list \<Rightarrow> RepairOrderServiceModel list" where
  "add_service_entries [] repair_order_id entries = entries"
| "add_service_entries (service_id # rest) repair_order_id entries =
     add_service_entries rest repair_order_id
       (entries @ [\<lparr>ros_id = next_id (map ros_id entries),
                     ros_service_id = service_id,
                     ros_repair_order_id = repair_order_id\<rparr>])"

text \<open>
  Lines 150--155 build the instance; the first commit and the refresh (lines 157--158)
  give it its id.
\<close>

definition new_repair_order ::
  "datetime \<Rightarrow> RepairOrderCreate \<Rightarrow> RepairOrderDB \<Rightarrow> RepairOrderModel" where
  "new_repair_order now repair_order_data db =
     \<lparr>rom_id = next_id (map rom_id (repair_orders db)),
      rom_client_name = roc_client_name repair_order_data,
      rom_client_phone = roc_client_phone repair_order_data,
      rom_car_make = roc_car_make repair_order_data,
      rom_car_model = roc_car_model repair_order_data,
      rom_car_plate = roc_car_plate repair_order_data,
      rom_employee_id = roc_employee_id repair_order_data,
      rom_status = status_new,
      rom_created_at = now,
      rom_description = roc_description repair_order_data\<rparr>"

text \<open>
  The handler. The first commit (line 157) inserts the order row and raises
  OverflowError when \<open>employee_id\<close> is outside the 64-bit range: nothing is stored. The
  second commit (line 166) inserts the association rows in one transaction and raises
  when a service id is outside that range: no association row is stored, and the order
  row of the first commit stays.
\<close>

definition create_repair_order ::
  "remote \<Rightarrow> datetime \<Rightarrow> RepairOrderCreate \<Rightarrow> RepairOrderDB
     \<Rightarrow> (error + RepairOrder) \<times> RepairOrderDB" where
  "create_repair_order requests_get now repair_order_data db =
     (case validate_references requests_get repair_order_data of
        Inl e \<Rightarrow> (Inl (upstream_failure e), db)
      | Inr _ \<Rightarrow>
          (if \<not> int64 (roc_employee_id repair_order_data) then (Inl OverflowError, db)
           else
             (let new_repair_order_model = new_repair_order now repair_order_data db;
                  db1 = db\<lparr>repair_orders := repair_orders db @ [new_repair_order_model]\<rparr>
              in if \<not> list_all int64 (roc_service_ids repair_order_data)
                 then (Inl OverflowError, db1)
                 else
                   (let db2 = db1\<lparr>repair_order_services :=
                                  add_service_entries (roc_service_ids repair_order_data)
                                    (rom_id new_repair_order_model)
                                    (repair_order_services db1)\<rparr>
                    in (RepairOrder_response new_repair_order_model
                          (load_services db2 (rom_id new_repair_order_model)), db2)))))"

fun collect :: "(error + 'a) list \<Rightarrow> error + 'a list" where
  "collect [] = Inr []"
| "collect (x # xs) =
     (case x of
        Inl e \<Rightarrow> Inl e
      | Inr a \<Rightarrow> (case collect xs of Inl e \<Rightarrow> Inl e | Inr as \<Rightarrow> Inr (a # as)))"

definition get_all_repair_orders :: "RepairOrderDB \<Rightarrow> error + RepairOrder list" where
  "get_all_repair_orders db =
     collect (map (\<lambda>order. RepairOrder_response order (load_services db (rom_id order)))
                (repair_orders db))"

definition get_repair_order_by_id :: "int \<Rightarrow> RepairOrderDB \<Rightarrow> error + RepairOrder" where
  "get_repair_order_by_id repair_order_id db =
     (case session_get rom_id (repair_orders db) repair_order_id of
        Inl e \<Rightarrow> Inl e
      | Inr None \<Rightarrow> Inl (HTTPException 404 repair_order_not_found)
      | Inr (Some repair_order) \<Rightarrow>
          RepairOrder_response repair_order (load_services db repair_order_id))"

text \<open>
  Lines 209--212 assign a field only when the update carries a value that is not \<open>None\<close>;
  the commit writes the instance back to its row.
\<close>

definition apply_update :: "RepairOrderUpdate \<Rightarrow> RepairOrderModel \<Rightarrow> RepairOrderModel" where
  "apply_update repair_order_update repair_order =
     (let r1 = (case rou_status repair_order_update of
                  None \<Rightarrow> repair_order
                | Some s \<Rightarrow> repair_order\<lparr>rom_status := s\<rparr>)
      in (case rou_description repair_order_update of
            None \<Rightarrow> r1
          | Some d \<Rightarrow> r1\<lparr>rom_description := Some d\<rparr>))"

definition update_repair_order ::
  "int \<Rightarrow> RepairOrderUpdate \<Rightarrow> RepairOrderDB \<Rightarrow> (error + RepairOrder) \<times> RepairOrderDB" where
  "update_repair_order repair_order_id repair_order_update db =
     (case session_get rom_id (repair_orders db) repair_order_id of
        Inl e \<Rightarrow> (Inl e, db)
      | Inr None \<Rightarrow> (Inl (HTTPException 404 repair_order_not_found), db)
      | Inr (Some repair_order) \<Rightarrow>
          (let updated = apply_update repair_order_update repair_order;
               db' = db\<lparr>repair_orders :=
                        map (\<lambda>r. if rom_id r = rom_id repair_order then updated else r)
                          (repair_orders db)\<rparr>
           in (RepairOrder_response updated (load_services db' repair_order_id), db')))"

text \<open>
  The body of a PUT request before it becomes a \<open>RepairOrderUpdate\<close>: each of the two
  keys is absent, \<open>null\<close>, or a string. Both fields are declared \<open>Optional[str] = None\<close>
  (lines 118--119): an absent key takes the default \<open>None\<close> and \<open>null\<close> validates to
  \<open>None\<close>.
\<close>

datatype 'a json_field = Absent | Null | Value 'a

record RepairOrderUpdateBody =
  body_status :: "string json_field"
  body_description :: "string json_field"

fun optional_field :: "'a json_field \<Rightarrow> 'a option" where
  "optional_field Absent = None"
| "optional_field Null = None"
| "optional_field (Value v) = Some v"

definition RepairOrderUpdate_validate :: "RepairOrderUpdateBody \<Rightarrow> RepairOrderUpdate" where
  "RepairOrderUpdate_validate body =
     \<lparr>rou_status = optional_field (body_status body),
      rou_description = optional_field (body_description body)\<rparr>"

definition put_repair_order ::
  "int \<Rightarrow> RepairOrderUpdateBody \<Rightarrow> RepairOrderDB \<Rightarrow> (error + RepairOrder) \<times> RepairOrderDB" where
  "put_repair_order repair_order_id body db =
     update_repair_order repair_order_id (RepairOrderUpdate_validate body) db"

text \<open>
  \<open>session.delete(repair_order)\<close> followed by \<open>commit\<close> (lines 229--230). The
  relationship \<open>services\<close> (line 51) declares no delete cascade, so the unit of work
  first detaches the order's association rows by setting their \<open>repair_order_id\<close> to
  NULL, and only then deletes the order row. The column is declared \<open>Mapped[int]\<close>
  (line 59), hence NOT NULL: when the order has an association row that update is
  rejected, the commit raises and the transaction is rolled back. The select of
  line 227 reads rows and changes nothing.
\<close>

definition delete_and_commit :: "RepairOrderModel \<Rightarrow> RepairOrderDB \<Rightarrow> error + RepairOrderDB" where
  "delete_and_commit repair_order db =
     (if load_services db (rom_id repair_order) \<noteq> [] then Inl IntegrityError
      else Inr (db\<lparr>repair_orders :=
                     session_delete rom_id (repair_orders db) (rom_id repair_order)\<rparr>))"

definition delete_repair_order ::
  "int \<Rightarrow> RepairOrderDB \<Rightarrow> (error + bool \<times> string) \<times> RepairOrderDB" where
  "delete_repair_order repair_order_id db =
     (case session_get rom_id (repair_orders db) repair_order_id of
        Inl e \<Rightarrow> (Inl e, db)
      | Inr None \<Rightarrow> (Inl (HTTPException 404 repair_order_not_found), db)
      | Inr (Some repair_order) \<Rightarrow>
          (case delete_and_commit repair_order db of
             Inl e \<Rightarrow> (Inl e, db)
           | Inr db' \<Rightarrow> (Inr (True, repair_order_deleted), db')))"

subsection \<open>The two services together\<close>

text \<open>
  The lookups a creation request issues, in order, and the outcome of one of them:
  \<open>requests.get\<close> followed by \<open>raise_for_status\<close>. A lookup fails when that raises.
\<close>

definition lookups :: "RepairOrderCreate \<Rightarrow> lookup list" where
  "lookups repair_order_data =
     map GetService (roc_service_ids repair_order_data)
       @ [GetEmployee (roc_employee_id repair_order_data)]"

definition lookup_result :: "remote \<Rightarrow> lookup \<Rightarrow> requests_exception + unit" where
  "lookup_result requests_get l =
     (case requests_get l of Inl e \<Rightarrow> Inl e | Inr response \<Rightarrow> raise_for_status response)"

definition lookup_fails :: "remote \<Rightarrow> lookup \<Rightarrow> bool" where
  "lookup_fails requests_get l = isl (lookup_result requests_get l)"

text \<open>
  The response an exception carries (\<open>e.response\<close>), and the status code with which the
  Reference Data Service answers a lookup: 200 with the entity, or the status code of
  the \<open>HTTPException\<close> its handler raises. A lookup is answered by the Reference Data
  Service when a response comes back and bears that status code.
\<close>

fun response_of :: "requests_exception \<Rightarrow> Response option" where
  "response_of (HTTPError response) = Some response"
| "response_of (RequestException response msg) = response"

fun status_of :: "error + 'a \<Rightarrow> int" where
  "status_of (Inr _) = 200"
| "status_of (Inl (HTTPException code detail)) = code"
| "status_of (Inl _) = 500"

fun reference_status :: "ReferenceDB \<Rightarrow> lookup \<Rightarrow> int" where
  "reference_status ref (GetService service_id) = status_of (get_service_by_id service_id ref)"
| "reference_status ref (GetEmployee employee_id) = status_of (get_employee_by_id employee_id ref)"

definition answered_by :: "ReferenceDB \<Rightarrow> remote \<Rightarrow> lookup \<Rightarrow> bool" where
  "answered_by ref requests_get l =
     (case requests_get l of
        Inl e \<Rightarrow> False
      | Inr response \<Rightarrow> status_code response = reference_status ref l)"

section \<open>Concrete inputs\<close>

text \<open>The reference data of the example of the specification: one service, one employee.\<close>

definition ref0 :: ReferenceDB where
  "ref0 = \<lparr>services = [\<lparr>sm_id = 1, sm_name = ''Oil Change'', sm_price = Finite (2999 / 100),
                          sm_duration_minutes = 20\<rparr>],
           employees = [\<lparr>em_id = 1, em_full_name = ''Jane Doe'', em_position = ''Mechanic''\<rparr>]\<rparr>"

text \<open>
  A remote side that always answers, with the status code of the Reference Data Service
  over \<open>ref0\<close>, and one that cannot be reached.
\<close>

definition remote0 :: remote where
  "remote0 l = Inr \<lparr>status_code = reference_status ref0 l, response_text = ''body''\<rparr>"

definition remote_down :: remote where
  "remote_down l = Inl (RequestException None ''Connection refused'')"

text \<open>
  Service creation requests: a plain one, one whose duration does not fit 64 bits, one
  whose price is NaN and one whose price is infinite.
\<close>

definition service_request0 :: ServiceCreate where
  "service_request0 = \<lparr>sc_name = ''Tyres'', sc_price = Finite 30, sc_duration_minutes = 45\<rparr>"

definition service_request_long :: ServiceCreate where
  "service_request_long = service_request0\<lparr>sc_duration_minutes := 9223372036854775808\<rparr>"

definition service_request_nan :: ServiceCreate where
  "service_request_nan = service_request0\<lparr>sc_price := NaN\<rparr>"

definition service_request_inf :: ServiceCreate where
  "service_request_inf = service_request0\<lparr>sc_price := PosInf\<rparr>"

text \<open>An empty repair-order database and creation requests.\<close>

definition db0 :: RepairOrderDB where
  "db0 = \<lparr>repair_orders = [], repair_order_services = []\<rparr>"

definition request0 :: RepairOrderCreate where
  "request0 = \<lparr>roc_client_name = ''Ann'', roc_client_phone = ''555'',
               roc_car_make = ''Lada'', roc_car_model = ''Niva'', roc_car_plate = ''A001AA'',
               roc_service_ids = [1], roc_employee_id = 1, roc_description = None\<rparr>"

definition request_bad_employee :: RepairOrderCreate where
  "request_bad_employee = request0\<lparr>roc_employee_id := 7\<rparr>"

definition request_long_service :: RepairOrderCreate where
  "request_long_service = request0\<lparr>roc_service_ids := [1, 9223372036854775808]\<rparr>"

text \<open>What the accepted request \<open>request0\<close> returns and leaves in the database.\<close>

definition created0 :: RepairOrder where
  "created0 = \<lparr>ro_id = 1, ro_client_name = ''Ann'', ro_client_phone = ''555'',
               ro_car_make = ''Lada'', ro_car_model = ''Niva'', ro_car_plate = ''A001AA'',
               ro_employee_id = 1, ro_status = status_new, ro_created_at = 0,
               ro_description = None, ro_service_ids = []\<rparr>"

definition db0_created :: RepairOrderDB where
  "db0_created =
     \<lparr>repair_orders =
        [\<lparr>rom_id = 1, rom_client_name = ''Ann'', rom_client_phone = ''555'',
          rom_car_make = ''Lada'', rom_car_model = ''Niva'', rom_car_plate = ''A001AA'',
          rom_employee_id = 1, rom_status = status_new, rom_created_at = 0,
          rom_description = None\<rparr>],
      repair_order_services =
        [\<lparr>ros_id = 1, ros_service_id = 1, ros_repair_order_id = 1\<rparr>]\<rparr>"

text \<open>A database holding one order with one association row, and an update body.\<close>

definition order1 :: RepairOrderModel where
  "order1 = \<lparr>rom_id = 1, rom_client_name = ''Ann'', rom_client_phone = ''555'',
             rom_car_make = ''Lada'', rom_car_model = ''Niva'', rom_car_plate = ''A001AA'',
             rom_employee_id = 1, rom_status = status_new, rom_created_at = 0,
             rom_description = Some ''brakes''\<rparr>"

definition db1 :: RepairOrderDB where
  "db1 = \<lparr>repair_orders = [order1],
          repair_order_services = [\<lparr>ros_id = 1, ros_service_id = 1, ros_repair_order_id = 1\<rparr>]\<rparr>"

definition status_only :: RepairOrderUpdate where
  "status_only = \<lparr>rou_status = Some ''Done'', rou_description = None\<rparr>"

definition null_body :: RepairOrderUpdateBody where
  "null_body = \<lparr>body_status = Null, body_description = Null\<rparr>"

section \<open>Facts about tables\<close>

lemma int64_small: "int64 1" "int64 2" "int64 5" "int64 7"
  by (simp_all add: int64_def)

lemma not_int64_big: "\<not> int64 9223372036854775808"
  by (simp add: int64_def)

lemma fold_max_ge: "(a::int) \<le> fold max ids a"
  by (induction ids arbitrary: a) (auto intro: order_trans [OF max.cobounded2])

lemma fold_max_upper: "i \<in> set ids \<Longrightarrow> (i::int) \<le> fold max ids a"
proof (induction ids arbitrary: a)
  case Nil
  then show ?case by simp
next
  case (Cons x xs)
  show ?case
  proof (cases "i = x")
    case True
    have "x \<le> max x a" by simp
    also have "\<dots> \<le> fold max xs (max x a)" by (rule fold_max_ge)
    finally show ?thesis using True by simp
  next
    case False
    with Cons.prems have "i \<in> set xs" by simp
    then show ?thesis using Cons.IH by simp
  qed
qed

lemma next_id_fresh: "next_id ids \<notin> set ids"
proof
  assume "next_id ids \<in> set ids"
  then have "next_id ids \<le> fold max ids 0" by (rule fold_max_upper)
  then show False by (simp add: next_id_def)
qed

lemma next_id_positive: "0 < next_id ids"
  using fold_max_ge [of 0 ids] by (simp add: next_id_def)

lemma session_get_out_of_range: "\<not> int64 i \<Longrightarrow> session_get pk rows i = Inl OverflowError"
  by (simp add: session_get_def)

lemma session_get_absent:
  "int64 i \<Longrightarrow> i \<notin> pk ` set rows \<Longrightarrow> session_get pk rows i = Inr None"
  by (auto simp: session_get_def find_None_iff)

lemma session_get_present:
  "int64 i \<Longrightarrow> i \<in> pk ` set rows \<Longrightarrow> \<exists>r. session_get pk rows i = Inr (Some r)"
  by (cases "find (\<lambda>r. pk r = i) rows") (auto simp: session_get_def find_None_iff)

lemma session_get_Some_pk:
  "session_get pk rows i = Inr (Some r) \<Longrightarrow> pk r = i \<and> r \<in> set rows \<and> int64 i"
  by (auto simp: session_get_def find_Some_iff split: if_splits)

lemma find_appended:
  "pk r \<notin> pk ` set rows \<Longrightarrow> find (\<lambda>x. pk x = pk r) (rows @ [r]) = Some r"
  by (induction rows) auto

lemma session_get_appended:
  "int64 (pk r) \<Longrightarrow> pk r \<notin> pk ` set rows \<Longrightarrow>
     session_get pk (rows @ [r]) (pk r) = Inr (Some r)"
  by (simp add: session_get_def find_appended)

lemma find_replaced:
  "find (\<lambda>r. pk r = i) rows = Some old \<Longrightarrow> pk new = i \<Longrightarrow>
     find (\<lambda>r. pk r = i) (map (\<lambda>r. if pk r = i then new else r) rows) = Some new"
  by (induction rows) (auto split: if_splits)

lemma session_get_replaced:
  "session_get pk rows i = Inr (Some old) \<Longrightarrow> pk new = i \<Longrightarrow>
     session_get pk (map (\<lambda>r. if pk r = i then new else r) rows) i = Inr (Some new)"
  by (auto simp: session_get_def find_replaced split: if_splits)

section \<open>Facts about the repair-order handlers\<close>

lemma field_service_ids_default:
  "field_service_ids order svcs = Inr (PyList [])"
  by (simp add: field_service_ids_def getattr_def RepairOrderModel_attributes_def)

lemma RepairOrder_response_eq:
  "RepairOrder_response order svcs =
     Inr \<lparr>ro_id = rom_id order,
          ro_client_name = rom_client_name order,
          ro_client_phone = rom_client_phone order,
          ro_car_make = rom_car_make order,
          ro_car_model = rom_car_model order,
          ro_car_plate = rom_car_plate order,
          ro_employee_id = rom_employee_id order,
          ro_status = rom_status order,
          ro_created_at = rom_created_at order,
          ro_description = rom_description order,
          ro_service_ids = []\<rparr>"
  by (simp add: RepairOrder_response_def field_service_ids_default)

lemma validate_service_ids_Inr:
  "validate_service_ids get ids = Inr u \<longleftrightarrow> list_all (\<lambda>i. \<not> lookup_fails get (GetService i)) ids"
  by (induction ids)
     (auto simp: lookup_fails_def lookup_result_def split: sum.splits)

lemma validate_service_ids_Inl:
  "validate_service_ids get ids = Inl e \<Longrightarrow>
     \<exists>i. i \<in> set ids \<and> lookup_result get (GetService i) = Inl e"
  by (induction ids) (auto simp: lookup_result_def split: sum.splits)

lemma validate_references_alt:
  "validate_references get data =
     (case validate_service_ids get (roc_service_ids data) of
        Inl e \<Rightarrow> Inl e
      | Inr _ \<Rightarrow> lookup_result get (GetEmployee (roc_employee_id data)))"
  by (simp add: validate_references_def lookup_result_def split: sum.splits)

lemma list_ex_lookups:
  "list_ex P (lookups data) \<longleftrightarrow>
     \<not> list_all (\<lambda>i. \<not> P (GetService i)) (roc_service_ids data)
       \<or> P (GetEmployee (roc_employee_id data))"
  by (auto simp: lookups_def list_ex_iff list_all_iff)

lemma validate_references_Inr:
  "validate_references get data = Inr u \<longleftrightarrow> \<not> list_ex (lookup_fails get) (lookups data)"
proof (cases "validate_service_ids get (roc_service_ids data)")
  case (Inl e)
  then have "\<not> list_all (\<lambda>i. \<not> lookup_fails get (GetService i)) (roc_service_ids data)"
    using validate_service_ids_Inr [of get "roc_service_ids data" "()"] by simp
  then show ?thesis
    using Inl by (simp add: validate_references_alt list_ex_lookups)
next
  case (Inr v)
  then have "list_all (\<lambda>i. \<not> lookup_fails get (GetService i)) (roc_service_ids data)"
    using validate_service_ids_Inr [of get "roc_service_ids data" v] by simp
  then show ?thesis
    using Inr
    by (cases "lookup_result get (GetEmployee (roc_employee_id data))")
       (simp_all add: validate_references_alt list_ex_lookups lookup_fails_def)
qed

lemma validate_references_Inl:
  "validate_references get data = Inl e \<Longrightarrow>
     \<exists>l. l \<in> set (lookups data) \<and> lookup_result get l = Inl e"
proof (cases "validate_service_ids get (roc_service_ids data)")
  case (Inl e')
  assume "validate_references get data = Inl e"
  with Inl have "e' = e" by (simp add: validate_references_alt)
  with Inl obtain i where "i \<in> set (roc_service_ids data)"
      and "lookup_result get (GetService i) = Inl e"
    using validate_service_ids_Inl by blast
  then show ?thesis by (auto simp: lookups_def)
next
  case (Inr v)
  assume "validate_references get data = Inl e"
  with Inr have "lookup_result get (GetEmployee (roc_employee_id data)) = Inl e"
    by (simp add: validate_references_alt)
  then show ?thesis by (auto simp: lookups_def)
qed

section \<open>Reference data: creation and lookup (C8)\<close>

lemma create_service_stored:
  assumes "int64 (sc_duration_minutes new_service)"
      and "sc_price new_service \<noteq> NaN"
  shows "create_service new_service ref =
           (Inr \<lparr>s_id = next_id (map sm_id (services ref)),
                 s_name = sc_name new_service,
                 s_price = json_float (sc_price new_service),
                 s_duration_minutes = sc_duration_minutes new_service\<rparr>,
            ref\<lparr>services := services ref
               @ [\<lparr>sm_id = next_id (map sm_id (services ref)),
                    sm_name = sc_name new_service,
                    sm_price = sc_price new_service,
                    sm_duration_minutes = sc_duration_minutes new_service\<rparr>]\<rparr>)"
  using assms by (simp add: create_service_def Let_def Service_response_def)

lemma create_service_get:
  assumes "int64 (sc_duration_minutes new_service)"
      and "sc_price new_service \<noteq> NaN"
      and "int64 (next_id (map sm_id (services ref)))"
  shows "get_service_by_id (next_id (map sm_id (services ref)))
           (snd (create_service new_service ref)) = fst (create_service new_service ref)"
proof -
  let ?service = "\<lparr>sm_id = next_id (map sm_id (services ref)),
                    sm_name = sc_name new_service,
                    sm_price = sc_price new_service,
                    sm_duration_minutes = sc_duration_minutes new_service\<rparr>"
  have "sm_id ?service \<notin> sm_id ` set (services ref)"
    using next_id_fresh [of "map sm_id (services ref)"] by simp
  moreover have "int64 (sm_id ?service)"
    using assms(3) by simp
  ultimately
  have "session_get sm_id (services ref @ [?service]) (sm_id ?service) = Inr (Some ?service)"
    by (rule session_get_appended [rotated])
  then show ?thesis
    by (simp add: create_service_stored [OF assms(1,2)] get_service_by_id_def
          Service_response_def)
qed

lemma create_employee_get:
  assumes "int64 (next_id (map em_id (employees ref)))"
  shows "get_employee_by_id (em_id (fst (create_employee new_employee ref)))
     (snd (create_employee new_employee ref)) = Inr (fst (create_employee new_employee ref))"
proof -
  let ?employee = "\<lparr>em_id = next_id (map em_id (employees ref)),
                     em_full_name = ec_full_name new_employee,
                     em_position = ec_position new_employee\<rparr>"
  have "em_id ?employee \<notin> em_id ` set (employees ref)"
    using next_id_fresh [of "map em_id (employees ref)"] by simp
  moreover have "int64 (em_id ?employee)"
    using assms by simp
  ultimately
  have "session_get em_id (employees ref @ [?employee]) (em_id ?employee) = Inr (Some ?employee)"
    by (rule session_get_appended [rotated])
  then show ?thesis
    by (simp add: create_employee_def get_employee_by_id_def Let_def)
qed

text \<open>
  C8, as the code has it. For a service request whose duration fits 64 bits and whose
  price is a finite number, and for any employee request, on tables whose next id fits
  64 bits: creation stores the entity, and get-by-id on the assigned id, immediately
  after, returns it with the fields of the request and an id that no row of the table
  had before.
\<close>

theorem get_by_id_after_create:
  assumes "int64 (sc_duration_minutes new_service)"
      and "sc_price new_service = Finite price"
      and "int64 (next_id (map sm_id (services ref)))"
      and "int64 (next_id (map em_id (employees ref)))"
  shows "(\<exists>service ref'.
            create_service new_service ref = (Inr service, ref')
            \<and> get_service_by_id (s_id service) ref' = Inr service
            \<and> s_name service = sc_name new_service
            \<and> s_price service = Some price
            \<and> s_duration_minutes service = sc_duration_minutes new_service
            \<and> s_id service \<notin> sm_id ` set (services ref))
         \<and> (case create_employee new_employee ref of
               (employee, ref') \<Rightarrow>
                 get_employee_by_id (em_id employee) ref' = Inr employee
                 \<and> em_full_name employee = ec_full_name new_employee
                 \<and> em_position employee = ec_position new_employee
                 \<and> em_id employee \<notin> em_id ` set (employees ref))"
proof (rule conjI)
  from assms(2) have n: "sc_price new_service \<noteq> NaN" by simp
  have f: "next_id (map sm_id (services ref)) \<notin> sm_id ` set (services ref)"
    using next_id_fresh [of "map sm_id (services ref)"] by simp
  from create_service_get [OF assms(1) n assms(3)] f assms(2)
  show "\<exists>service ref'.
            create_service new_service ref = (Inr service, ref')
            \<and> get_service_by_id (s_id service) ref' = Inr service
            \<and> s_name service = sc_name new_service
            \<and> s_price service = Some price
            \<and> s_duration_minutes service = sc_duration_minutes new_service
            \<and> s_id service \<notin> sm_id ` set (services ref)"
    by (simp add: create_service_stored [OF assms(1) n])
next
  have e: "em_id (fst (create_employee new_employee ref)) \<notin> em_id ` set (employees ref)"
    using next_id_fresh [of "map em_id (employees ref)"]
    by (simp add: create_employee_def Let_def)
  have ef: "em_full_name (fst (create_employee new_employee ref)) = ec_full_name new_employee
      \<and> em_position (fst (create_employee new_employee ref)) = ec_position new_employee"
    by (simp add: create_employee_def Let_def)
  show "case create_employee new_employee ref of
               (employee, ref') \<Rightarrow>
                 get_employee_by_id (em_id employee) ref' = Inr employee
                 \<and> em_full_name employee = ec_full_name new_employee
                 \<and> em_position employee = ec_position new_employee
                 \<and> em_id employee \<notin> em_id ` set (employees ref)"
    using e ef create_employee_get [OF assms(4), of new_employee]
    by (simp add: case_prod_beta)
qed

lemma ref0_next_ids:
  "next_id (map sm_id (services ref0)) = 2"
  "next_id (map em_id (employees ref0)) = 2"
  by (simp_all add: ref0_def next_id_def)

theorem get_by_id_after_create_witness:
  "int64 (sc_duration_minutes service_request0)
   \<and> sc_price service_request0 = Finite 30
   \<and> int64 (next_id (map sm_id (services ref0)))
   \<and> int64 (next_id (map em_id (employees ref0)))
   \<and> (\<exists>service ref'.
         create_service service_request0 ref0 = (Inr service, ref')
         \<and> get_service_by_id (s_id service) ref' = Inr service
         \<and> s_name service = ''Tyres''
         \<and> s_price service = Some 30
         \<and> s_duration_minutes service = 45)
   \<and> (case create_employee \<lparr>ec_full_name = ''John Roe'', ec_position = ''Painter''\<rparr> ref0 of
         (employee, ref') \<Rightarrow>
           get_employee_by_id (em_id employee) ref' = Inr employee
           \<and> em_full_name employee = ''John Roe''
           \<and> em_position employee = ''Painter'')"
proof -
  have a: "int64 (sc_duration_minutes service_request0)"
    by (simp add: service_request0_def int64_def)
  have b: "sc_price service_request0 = Finite 30"
    by (simp add: service_request0_def)
  have c: "int64 (next_id (map sm_id (services ref0)))"
      "int64 (next_id (map em_id (employees ref0)))"
    by (simp_all add: ref0_next_ids int64_small)
  have n: "sc_name service_request0 = ''Tyres''" "sc_duration_minutes service_request0 = 45"
    by (simp_all add: service_request0_def)
  from get_by_id_after_create [OF a b c,
      of "\<lparr>ec_full_name = ''John Roe'', ec_position = ''Painter''\<rparr>"]
  show ?thesis using a b c
    by (simp add: n case_prod_beta) blast
qed

text \<open>
  C8 as the specification words it fails on three requests that the schema
  \<open>ServiceCreate\<close> admits. A duration outside the 64-bit range and a NaN price make
  the creation raise, and nothing is stored. An infinite price is stored, and the
  entity comes back with \<open>null\<close> for its price.
\<close>

theorem get_by_id_after_create_counterexample:
  "create_service service_request_long ref0 = (Inl OverflowError, ref0)
   \<and> create_service service_request_nan ref0 = (Inl IntegrityError, ref0)
   \<and> sc_price service_request_inf = PosInf
   \<and> fst (create_service service_request_inf ref0)
       = Inr \<lparr>s_id = 2, s_name = ''Tyres'', s_price = None, s_duration_minutes = 45\<rparr>
   \<and> get_service_by_id 2 (snd (create_service service_request_inf ref0))
       = Inr \<lparr>s_id = 2, s_name = ''Tyres'', s_price = None, s_duration_minutes = 45\<rparr>"
proof (intro conjI)
  show "create_service service_request_long ref0 = (Inl OverflowError, ref0)"
    by (simp add: create_service_def service_request_long_def service_request0_def int64_def)
  show "create_service service_request_nan ref0 = (Inl IntegrityError, ref0)"
    by (simp add: create_service_def service_request_nan_def service_request0_def int64_def)
  show "sc_price service_request_inf = PosInf"
    by (simp add: service_request_inf_def)
  have d: "int64 (sc_duration_minutes service_request_inf)"
    by (simp add: service_request_inf_def service_request0_def int64_def)
  have p: "sc_price service_request_inf \<noteq> NaN"
    by (simp add: service_request_inf_def)
  have f: "sc_name service_request_inf = ''Tyres''"
      "sc_duration_minutes service_request_inf = 45"
      "json_float (sc_price service_request_inf) = None"
    by (simp_all add: service_request_inf_def service_request0_def)
  show c: "fst (create_service service_request_inf ref0)
       = Inr \<lparr>s_id = 2, s_name = ''Tyres'', s_price = None, s_duration_minutes = 45\<rparr>"
    by (simp add: create_service_stored [OF d p] ref0_next_ids f)
  have "int64 (next_id (map sm_id (services ref0)))"
    by (simp add: ref0_next_ids int64_small)
  from create_service_get [OF d p this]
  show "get_service_by_id 2 (snd (create_service service_request_inf ref0))
       = Inr \<lparr>s_id = 2, s_name = ''Tyres'', s_price = None, s_duration_minutes = 45\<rparr>"
    by (simp add: ref0_next_ids c)
qed

section \<open>Missing ids (C7)\<close>

text \<open>
  C7, as the code has it. For an id within the signed 64-bit range that no row of the
  table carries, get-by-id and delete of a Service, of an Employee and of a RepairOrder
  all raise HTTPException 404 with the entity's not-found message, and the delete
  leaves the database as it was.
\<close>

theorem missing_id_not_found:
  "(int64 service_id \<and> service_id \<notin> sm_id ` set (services ref) \<longrightarrow>
      get_service_by_id service_id ref = Inl (HTTPException 404 service_not_found)
      \<and> delete_service service_id ref = (Inl (HTTPException 404 service_not_found), ref))
   \<and> (int64 employee_id \<and> employee_id \<notin> em_id ` set (employees ref) \<longrightarrow>
      get_employee_by_id employee_id ref = Inl (HTTPException 404 employee_not_found)
      \<and> delete_employee employee_id ref = (Inl (HTTPException 404 employee_not_found), ref))
   \<and> (int64 repair_order_id \<and> repair_order_id \<notin> rom_id ` set (repair_orders db) \<longrightarrow>
      get_repair_order_by_id repair_order_id db = Inl (HTTPException 404 repair_order_not_found)
      \<and> delete_repair_order repair_order_id db
          = (Inl (HTTPException 404 repair_order_not_found), db))"
  by (simp add: session_get_absent get_service_by_id_def delete_service_def
        get_employee_by_id_def delete_employee_def get_repair_order_by_id_def
        delete_repair_order_def)

theorem missing_id_not_found_witness:
  "int64 2 \<and> 2 \<notin> sm_id ` set (services ref0)
   \<and> get_service_by_id 2 ref0 = Inl (HTTPException 404 service_not_found)
   \<and> delete_service 2 ref0 = (Inl (HTTPException 404 service_not_found), ref0)
   \<and> int64 5 \<and> 5 \<notin> em_id ` set (employees ref0)
   \<and> get_employee_by_id 5 ref0 = Inl (HTTPException 404 employee_not_found)
   \<and> delete_employee 5 ref0 = (Inl (HTTPException 404 employee_not_found), ref0)
   \<and> int64 1 \<and> 1 \<notin> rom_id ` set (repair_orders db0)
   \<and> get_repair_order_by_id 1 db0 = Inl (HTTPException 404 repair_order_not_found)
   \<and> delete_repair_order 1 db0 = (Inl (HTTPException 404 repair_order_not_found), db0)"
proof -
  have a: "2 \<notin> sm_id ` set (services ref0)" "5 \<notin> em_id ` set (employees ref0)"
      "1 \<notin> rom_id ` set (repair_orders db0)"
    by (simp_all add: ref0_def db0_def)
  from missing_id_not_found [of 2 ref0 5 1 db0] a int64_small show ?thesis
    by simp
qed

text \<open>
  C7 as the specification words it fails for an id that is in no table and outside the
  64-bit range: all six handlers raise OverflowError there, not NotFound.
\<close>

theorem missing_id_not_found_counterexample:
  "9223372036854775808 \<notin> sm_id ` set (services ref0)
   \<and> 9223372036854775808 \<notin> em_id ` set (employees ref0)
   \<and> 9223372036854775808 \<notin> rom_id ` set (repair_orders db0)
   \<and> get_service_by_id 9223372036854775808 ref0 = Inl OverflowError
   \<and> delete_service 9223372036854775808 ref0 = (Inl OverflowError, ref0)
   \<and> get_employee_by_id 9223372036854775808 ref0 = Inl OverflowError
   \<and> delete_employee 9223372036854775808 ref0 = (Inl OverflowError, ref0)
   \<and> get_repair_order_by_id 9223372036854775808 db0 = Inl OverflowError
   \<and> delete_repair_order 9223372036854775808 db0 = (Inl OverflowError, db0)"
proof -
  have a: "9223372036854775808 \<notin> sm_id ` set (services ref0)"
      "9223372036854775808 \<notin> em_id ` set (employees ref0)"
      "9223372036854775808 \<notin> rom_id ` set (repair_orders db0)"
    by (simp_all add: ref0_def db0_def)
  have b: "session_get pk rows 9223372036854775808 = Inl OverflowError" for pk :: "'r \<Rightarrow> int" and rows
    by (rule session_get_out_of_range [OF not_int64_big])
  from a show ?thesis
    by (simp add: b get_service_by_id_def delete_service_def get_employee_by_id_def
          delete_employee_def get_repair_order_by_id_def delete_repair_order_def)
qed

section \<open>Order creation: validation (C1, C6)\<close>

lemma create_repair_order_invalid:
  "validate_references requests_get repair_order_data = Inl e \<Longrightarrow>
     create_repair_order requests_get now repair_order_data db = (Inl (upstream_failure e), db)"
  by (simp add: create_repair_order_def)

lemma create_repair_order_first_commit:
  assumes "validate_references requests_get repair_order_data = Inr u"
      and "int64 (roc_employee_id repair_order_data)"
  shows "repair_orders (snd (create_repair_order requests_get now repair_order_data db))
           = repair_orders db @ [new_repair_order now repair_order_data db]"
  using assms by (simp add: create_repair_order_def Let_def)

lemma create_repair_order_valid:
  assumes "validate_references requests_get repair_order_data = Inr u"
      and "int64 (roc_employee_id repair_order_data)"
      and "list_all int64 (roc_service_ids repair_order_data)"
  shows "\<exists>order db'.
           create_repair_order requests_get now repair_order_data db = (Inr order, db')
           \<and> ro_status order = status_new
           \<and> ro_service_ids order = []
           \<and> repair_orders db' = repair_orders db @ [new_repair_order now repair_order_data db]
           \<and> repair_order_services db' =
                add_service_entries (roc_service_ids repair_order_data)
                  (next_id (map rom_id (repair_orders db))) (repair_order_services db)"
  using assms
  by (simp add: create_repair_order_def Let_def RepairOrder_response_eq new_repair_order_def)

lemma create_repair_order_second_commit_fails:
  assumes "validate_references requests_get repair_order_data = Inr u"
      and "int64 (roc_employee_id repair_order_data)"
      and "\<not> list_all int64 (roc_service_ids repair_order_data)"
  shows "create_repair_order requests_get now repair_order_data db
           = (Inl OverflowError,
              db\<lparr>repair_orders :=
                   repair_orders db @ [new_repair_order now repair_order_data db]\<rparr>)"
  using assms by (simp add: create_repair_order_def Let_def)

lemma lookup_fails_iff:
  "lookup_fails requests_get l \<longleftrightarrow>
     (\<exists>e. requests_get l = Inl e)
     \<or> (\<exists>response. requests_get l = Inr response
           \<and> 400 \<le> status_code response \<and> status_code response < 600)"
  by (cases "requests_get l")
     (auto simp: lookup_fails_def lookup_result_def raise_for_status_def)

text \<open>
  C1. If any lookup of a creation request fails (a response with an error status such
  as 404, or no response), the request fails and the database is returned unchanged.
  If none fails, validation passes and the creation goes on to its writes: the order
  row is written when the employee id fits its column, and the request succeeds when
  the service ids fit theirs as well.
\<close>

theorem failed_validation_persists_nothing:
  "(list_ex (lookup_fails requests_get) (lookups repair_order_data) \<longrightarrow>
      (\<exists>e. create_repair_order requests_get now repair_order_data db = (Inl e, db)))
   \<and> (\<not> list_ex (lookup_fails requests_get) (lookups repair_order_data) \<longrightarrow>
      validate_references requests_get repair_order_data = Inr ()
      \<and> (int64 (roc_employee_id repair_order_data) \<longrightarrow>
            repair_orders (snd (create_repair_order requests_get now repair_order_data db))
              = repair_orders db @ [new_repair_order now repair_order_data db])
      \<and> (int64 (roc_employee_id repair_order_data)
           \<and> list_all int64 (roc_service_ids repair_order_data) \<longrightarrow>
            (\<exists>order db'.
               create_repair_order requests_get now repair_order_data db = (Inr order, db')
               \<and> length (repair_orders db') = length (repair_orders db) + 1)))"
proof (intro conjI impI)
  assume "list_ex (lookup_fails requests_get) (lookups repair_order_data)"
  then have "validate_references requests_get repair_order_data \<noteq> Inr ()"
    by (simp add: validate_references_Inr)
  then obtain e where "validate_references requests_get repair_order_data = Inl e"
    by (cases "validate_references requests_get repair_order_data") auto
  then show "\<exists>e. create_repair_order requests_get now repair_order_data db = (Inl e, db)"
    by (auto dest: create_repair_order_invalid)
next
  assume ok: "\<not> list_ex (lookup_fails requests_get) (lookups repair_order_data)"
  then show "validate_references requests_get repair_order_data = Inr ()"
    by (simp add: validate_references_Inr)
next
  assume ok: "\<not> list_ex (lookup_fails requests_get) (lookups repair_order_data)"
    and e: "int64 (roc_employee_id repair_order_data)"
  from ok have v: "validate_references requests_get repair_order_data = Inr ()"
    by (simp add: validate_references_Inr)
  from v e
  show "repair_orders (snd (create_repair_order requests_get now repair_order_data db))
          = repair_orders db @ [new_repair_order now repair_order_data db]"
    by (rule create_repair_order_first_commit)
next
  assume ok: "\<not> list_ex (lookup_fails requests_get) (lookups repair_order_data)"
    and r: "int64 (roc_employee_id repair_order_data)
           \<and> list_all int64 (roc_service_ids repair_order_data)"
  from ok have v: "validate_references requests_get repair_order_data = Inr ()"
    by (simp add: validate_references_Inr)
  from r have e: "int64 (roc_employee_id repair_order_data)"
    and s: "list_all int64 (roc_service_ids repair_order_data)"
    by simp_all
  from create_repair_order_valid [OF v e s, of now db]
  show "\<exists>order db'.
          create_repair_order requests_get now repair_order_data db = (Inr order, db')
          \<and> length (repair_orders db') = length (repair_orders db) + 1"
    by auto
qed

lemma remote0_lookups:
  "lookup_fails remote0 (GetService 1) = False"
  "lookup_fails remote0 (GetEmployee 1) = False"
  "lookup_fails remote0 (GetEmployee 7) = True"
  by (simp_all add: lookup_fails_def lookup_result_def remote0_def ref0_def
        raise_for_status_def get_service_by_id_def get_employee_by_id_def session_get_def
        int64_def)

lemma request0_in_range:
  "int64 (roc_employee_id request0)" "list_all int64 (roc_service_ids request0)"
  by (simp_all add: request0_def int64_def)

theorem failed_validation_persists_nothing_witness:
  "list_ex (lookup_fails remote0) (lookups request_bad_employee)
   \<and> (\<exists>e. create_repair_order remote0 0 request_bad_employee db0 = (Inl e, db0))
   \<and> \<not> list_ex (lookup_fails remote0) (lookups request0)
   \<and> validate_references remote0 request0 = Inr ()
   \<and> int64 (roc_employee_id request0)
   \<and> list_all int64 (roc_service_ids request0)
   \<and> repair_orders (snd (create_repair_order remote0 0 request0 db0))
       = repair_orders db0 @ [new_repair_order 0 request0 db0]
   \<and> (\<exists>order db'. create_repair_order remote0 0 request0 db0 = (Inr order, db')
         \<and> length (repair_orders db') = length (repair_orders db0) + 1)"
  using failed_validation_persists_nothing [of remote0 request_bad_employee 0 db0]
    failed_validation_persists_nothing [of remote0 request0 0 db0]
    request0_in_range
  by (simp add: lookups_def request0_def request_bad_employee_def remote0_lookups)

text \<open>
  C6. When a lookup of a creation request fails, the request fails with the translation
  of the exception \<open>e\<close> of a failed lookup: if \<open>e\<close> carries a response, the
  HTTPException has that response's status code and a detail ending in its body; if it
  carries none, the status is 500 and the detail is the connectivity message followed
  by the text of \<open>e\<close>.
\<close>

theorem failed_validation_status:
  assumes "list_ex (lookup_fails requests_get) (lookups repair_order_data)"
  shows "\<exists>l e. l \<in> set (lookups repair_order_data)
           \<and> lookup_result requests_get l = Inl e
           \<and> create_repair_order requests_get now repair_order_data db
               = (Inl (upstream_failure e), db)
           \<and> (case response_of e of
                 Some response \<Rightarrow>
                   upstream_failure e =
                     HTTPException (status_code response)
                       (reference_service_error @ response_text response)
               | None \<Rightarrow>
                   (\<exists>msg. upstream_failure e =
                      HTTPException 500 (reference_connection_error @ msg)))"
proof -
  from assms have "validate_references requests_get repair_order_data \<noteq> Inr ()"
    by (simp add: validate_references_Inr)
  then obtain e where e: "validate_references requests_get repair_order_data = Inl e"
    by (cases "validate_references requests_get repair_order_data") auto
  then obtain l where l: "l \<in> set (lookups repair_order_data)"
      "lookup_result requests_get l = Inl e"
    using validate_references_Inl by blast
  have "case response_of e of
          Some response \<Rightarrow>
            upstream_failure e =
              HTTPException (status_code response)
                (reference_service_error @ response_text response)
        | None \<Rightarrow>
            (\<exists>msg. upstream_failure e = HTTPException 500 (reference_connection_error @ msg))"
    by (cases e rule: upstream_failure.cases) simp_all
  with l create_repair_order_invalid [OF e, of now db] show ?thesis by blast
qed

theorem failed_validation_status_witness:
  "list_ex (lookup_fails remote0) (lookups request_bad_employee)
   \<and> create_repair_order remote0 0 request_bad_employee db0
       = (Inl (HTTPException 404 (reference_service_error @ ''body'')), db0)
   \<and> list_ex (lookup_fails remote_down) (lookups request0)
   \<and> create_repair_order remote_down 0 request0 db0
       = (Inl (HTTPException 500 (reference_connection_error @ ''Connection refused'')), db0)"
proof -
  have a: "list_ex (lookup_fails remote0) (lookups request_bad_employee)"
    by (simp add: lookups_def request0_def request_bad_employee_def remote0_lookups)
  have b: "list_ex (lookup_fails remote_down) (lookups request0)"
    by (simp add: lookups_def request0_def lookup_fails_def lookup_result_def remote_down_def)
  have d: "lookup_result remote_down l = Inl e \<Longrightarrow>
      e = RequestException None ''Connection refused''" for l e
    by (simp add: lookup_result_def remote_down_def)
  have s: "lookup_result remote0 (GetService 1) = Inr ()"
      "lookup_result remote0 (GetEmployee 7)
         = Inl (HTTPError \<lparr>status_code = 404, response_text = ''body''\<rparr>)"
    by (simp_all add: lookup_result_def remote0_def raise_for_status_def ref0_def
          get_service_by_id_def get_employee_by_id_def session_get_def int64_def)
  have ls: "lookups request_bad_employee = [GetService 1, GetEmployee 7]"
    by (simp add: lookups_def request0_def request_bad_employee_def)
  from failed_validation_status [OF a, of 0 db0]
  obtain l e where "l \<in> set (lookups request_bad_employee)"
      and "lookup_result remote0 l = Inl e"
      and "create_repair_order remote0 0 request_bad_employee db0
             = (Inl (upstream_failure e), db0)"
    by blast
  then have "create_repair_order remote0 0 request_bad_employee db0
       = (Inl (HTTPException 404 (reference_service_error @ ''body'')), db0)"
    by (auto simp: ls s)
  moreover from failed_validation_status [OF b, of 0 db0]
  have "create_repair_order remote_down 0 request0 db0
       = (Inl (HTTPException 500 (reference_connection_error @ ''Connection refused'')), db0)"
    by (auto dest!: d)
  ultimately show ?thesis using a b by simp
qed

section \<open>Order creation: the returned order (C2, C3)\<close>

lemma existing_ids_not_failing:
  assumes "answered_by ref requests_get l"
      and "reference_status ref l = 200"
  shows "\<not> lookup_fails requests_get l"
  using assms
  by (cases "requests_get l")
     (simp_all add: answered_by_def lookup_fails_def lookup_result_def raise_for_status_def)

lemma stored_ids_int64:
  "list_all int64 (map pk rows) \<Longrightarrow> i \<in> pk ` set rows \<Longrightarrow> int64 i"
  by (induction rows) auto

lemma reference_status_service:
  assumes "int64 i" and "i \<in> sm_id ` set (services ref)"
  shows "reference_status ref (GetService i) = 200"
proof -
  from session_get_present [OF assms]
  obtain s where "session_get sm_id (services ref) i = Inr (Some s)" ..
  then show ?thesis
    by (simp add: get_service_by_id_def)
qed

lemma reference_status_employee:
  assumes "int64 j" and "j \<in> em_id ` set (employees ref)"
  shows "reference_status ref (GetEmployee j) = 200"
proof -
  from session_get_present [OF assms]
  obtain e where "session_get em_id (employees ref) j = Inr (Some e)" ..
  then show ?thesis
    by (simp add: get_employee_by_id_def)
qed

text \<open>
  C2, as the code has it. When every requested service id and the employee id exist in
  the Reference Data Service and every lookup is answered by it, creation succeeds and
  the returned order has the status of line 154, the Russian word for "new". The last
  two hypotheses say what holds of every database: the ids it stores are 64-bit
  integers.
\<close>

theorem created_order_status:
  assumes "set (roc_service_ids repair_order_data) \<subseteq> sm_id ` set (services ref)"
      and "roc_employee_id repair_order_data \<in> em_id ` set (employees ref)"
      and "list_all (answered_by ref requests_get) (lookups repair_order_data)"
      and "list_all int64 (map sm_id (services ref))"
      and "list_all int64 (map em_id (employees ref))"
  shows "\<exists>order db'.
           create_repair_order requests_get now repair_order_data db = (Inr order, db')
           \<and> ro_status order = status_new"
proof -
  have s: "int64 i" if "i \<in> set (roc_service_ids repair_order_data)" for i
  proof -
    from that assms(1) have "i \<in> sm_id ` set (services ref)" by (rule subsetD [rotated])
    with assms(4) show ?thesis by (rule stored_ids_int64)
  qed
  from assms(5,2) have e: "int64 (roc_employee_id repair_order_data)"
    by (rule stored_ids_int64)
  have "\<not> lookup_fails requests_get l" if "l \<in> set (lookups repair_order_data)" for l
  proof -
    from that assms(3) have a: "answered_by ref requests_get l"
      by (simp add: list_all_iff)
    from that consider i where "l = GetService i" "i \<in> set (roc_service_ids repair_order_data)"
      | "l = GetEmployee (roc_employee_id repair_order_data)"
      by (auto simp: lookups_def)
    then have "reference_status ref l = 200"
    proof cases
      case 1
      from 1(2) assms(1) have m: "i \<in> sm_id ` set (services ref)" by (rule subsetD [rotated])
      from 1(2) have "int64 i" by (rule s)
      from this m show ?thesis unfolding 1(1) by (rule reference_status_service)
    next
      case 2
      from e assms(2) show ?thesis unfolding 2 by (rule reference_status_employee)
    qed
    with a show ?thesis by (rule existing_ids_not_failing)
  qed
  then have "\<not> list_ex (lookup_fails requests_get) (lookups repair_order_data)"
    by (simp add: list_ex_iff)
  then have v: "validate_references requests_get repair_order_data = Inr ()"
    by (simp add: validate_references_Inr)
  from s have "list_all int64 (roc_service_ids repair_order_data)"
    by (simp add: list_all_iff)
  from create_repair_order_valid [OF v e this, of now db] show ?thesis by blast
qed

lemma ref0_request0:
  "set (roc_service_ids request0) \<subseteq> sm_id ` set (services ref0)"
  "roc_employee_id request0 \<in> em_id ` set (employees ref0)"
  by (simp_all add: request0_def ref0_def)

lemma remote0_answers: "list_all (answered_by ref0 remote0) (lookups request0)"
  by (simp add: lookups_def request0_def answered_by_def remote0_def)

lemma ref0_int64:
  "list_all int64 (map sm_id (services ref0))"
  "list_all int64 (map em_id (employees ref0))"
  by (simp_all add: ref0_def int64_def)

theorem created_order_status_witness:
  "set (roc_service_ids request0) \<subseteq> sm_id ` set (services ref0)
   \<and> roc_employee_id request0 \<in> em_id ` set (employees ref0)
   \<and> list_all (answered_by ref0 remote0) (lookups request0)
   \<and> list_all int64 (map sm_id (services ref0))
   \<and> list_all int64 (map em_id (employees ref0))
   \<and> (\<exists>order db'. create_repair_order remote0 0 request0 db0 = (Inr order, db')
         \<and> ro_status order = status_new)"
  using created_order_status [OF ref0_request0 remote0_answers ref0_int64, of 0 db0]
    ref0_request0 remote0_answers ref0_int64
  by simp

lemma create_request0:
  "create_repair_order remote0 0 request0 db0 = (Inr created0, db0_created)"
proof -
  have "validate_references remote0 request0 = Inr ()"
    by (simp add: validate_references_Inr lookups_def request0_def remote0_lookups)
  then show ?thesis
    by (simp add: create_repair_order_def Let_def RepairOrder_response_eq request0_def
          db0_def created0_def db0_created_def next_id_def new_repair_order_def int64_def)
qed

text \<open>
  C2 as the specification words it fails twice on the request \<open>request0\<close>, whose ids
  all exist in \<open>ref0\<close>: with every lookup answered, the returned order's status is not
  the string \<open>New\<close>; with the Reference Data Service out of reach, the creation fails.
\<close>

theorem created_order_status_counterexample:
  "set (roc_service_ids request0) \<subseteq> sm_id ` set (services ref0)
   \<and> roc_employee_id request0 \<in> em_id ` set (employees ref0)
   \<and> create_repair_order remote0 0 request0 db0 = (Inr created0, db0_created)
   \<and> ro_status created0 \<noteq> ''New''
   \<and> create_repair_order remote_down 0 request0 db0
       = (Inl (HTTPException 500 (reference_connection_error @ ''Connection refused'')), db0)"
proof -
  have a: "ro_status created0 \<noteq> ''New''"
    by (simp add: created0_def status_new_def)
  have "validate_references remote_down request0
          = Inl (RequestException None ''Connection refused'')"
    by (simp add: validate_references_def request0_def remote_down_def)
  then have b: "create_repair_order remote_down 0 request0 db0
       = (Inl (HTTPException 500 (reference_connection_error @ ''Connection refused'')), db0)"
    by (simp add: create_repair_order_def)
  from a b ref0_request0 create_request0 show ?thesis by simp
qed

lemma add_service_entries_appends:
  "\<exists>new. add_service_entries service_ids repair_order_id entries = entries @ new
         \<and> map ros_service_id new = service_ids
         \<and> list_all (\<lambda>entry. ros_repair_order_id entry = repair_order_id) new"
proof (induction service_ids arbitrary: entries)
  case Nil
  show ?case by simp
next
  case (Cons service_id rest)
  define entry where "entry = \<lparr>ros_id = next_id (map ros_id entries),
      ros_service_id = service_id, ros_repair_order_id = repair_order_id\<rparr>"
  from Cons.IH [of "entries @ [entry]"] obtain new
    where 1: "add_service_entries rest repair_order_id (entries @ [entry])
             = (entries @ [entry]) @ new"
      and 2: "map ros_service_id new = rest"
      and 3: "list_all (\<lambda>e. ros_repair_order_id e = repair_order_id) new"
    by (elim exE conjE)
  have "add_service_entries (service_id # rest) repair_order_id entries
          = add_service_entries rest repair_order_id (entries @ [entry])"
    by (simp add: entry_def)
  with 1 have a: "add_service_entries (service_id # rest) repair_order_id entries
          = entries @ (entry # new)"
    by simp
  from 2 have b: "map ros_service_id (entry # new) = service_id # rest"
    by (simp add: entry_def)
  from 3 have c: "list_all (\<lambda>e. ros_repair_order_id e = repair_order_id) (entry # new)"
    by (simp add: entry_def)
  from a b c show ?case by (intro exI [of _ "entry # new"] conjI)
qed

text \<open>
  C3, evaluated. The request \<open>request0\<close> asks for service 1 and is accepted; its
  association row is written, pointing at the new order, yet the returned order lists
  no service id. The field \<open>service_ids\<close> is never filled from the relationship
  \<open>services\<close>, so the serializer works on the field's default.
\<close>

theorem created_order_lists_no_service_ids:
  "roc_service_ids request0 = [1]
   \<and> create_repair_order remote0 0 request0 db0 = (Inr created0, db0_created)
   \<and> ro_service_ids created0 = []
   \<and> load_services db0_created (ro_id created0)
       = [\<lparr>ros_id = 1, ros_service_id = 1, ros_repair_order_id = 1\<rparr>]"
proof (intro conjI)
  show "roc_service_ids request0 = [1]"
    by (simp add: request0_def)
  show "create_repair_order remote0 0 request0 db0 = (Inr created0, db0_created)"
    by (rule create_request0)
  show "ro_service_ids created0 = []"
    by (simp add: created0_def)
  show "load_services db0_created (ro_id created0)
       = [\<lparr>ros_id = 1, ros_service_id = 1, ros_repair_order_id = 1\<rparr>]"
    by (simp add: created0_def db0_created_def load_services_def)
qed

text \<open>
  A request whose lookups are all answered with 200 and whose second service id does
  not fit 64 bits: the order row is committed, the second commit raises, and no
  association row is stored.
\<close>

lemma create_request_long_service:
  "create_repair_order (\<lambda>l. Inr \<lparr>status_code = 200, response_text = ''body''\<rparr>) 0
       request_long_service db0
     = (Inl OverflowError,
        \<lparr>repair_orders = [new_repair_order 0 request_long_service db0],
         repair_order_services = []\<rparr>)"
proof -
  let ?get = "\<lambda>l::lookup. Inr \<lparr>status_code = 200, response_text = ''body''\<rparr>
                :: requests_exception + Response"
  have "\<not> list_ex (lookup_fails ?get) (lookups request_long_service)"
    by (simp add: list_ex_iff lookup_fails_def lookup_result_def raise_for_status_def)
  then have v: "validate_references ?get request_long_service = Inr ()"
    by (simp add: validate_references_Inr)
  have e: "int64 (roc_employee_id request_long_service)"
    by (simp add: request_long_service_def request0_def int64_def)
  have s: "\<not> list_all int64 (roc_service_ids request_long_service)"
    by (simp add: request_long_service_def int64_def)
  from create_repair_order_second_commit_fails [OF v e s, of 0 db0]
  show ?thesis by (simp add: db0_def)
qed

section \<open>Updating an order (C4, C10)\<close>

lemma apply_update_fields:
  "rom_status (apply_update upd old)
     = (case rou_status upd of None \<Rightarrow> rom_status old | Some s \<Rightarrow> s)"
  "rom_description (apply_update upd old)
     = (case rou_description upd of None \<Rightarrow> rom_description old | Some d \<Rightarrow> Some d)"
  "rom_id (apply_update upd old) = rom_id old"
  "rom_client_name (apply_update upd old) = rom_client_name old"
  "rom_client_phone (apply_update upd old) = rom_client_phone old"
  "rom_car_make (apply_update upd old) = rom_car_make old"
  "rom_car_model (apply_update upd old) = rom_car_model old"
  "rom_car_plate (apply_update upd old) = rom_car_plate old"
  "rom_employee_id (apply_update upd old) = rom_employee_id old"
  "rom_created_at (apply_update upd old) = rom_created_at old"
  by (simp_all add: apply_update_def Let_def split: option.splits)

lemma update_repair_order_existing:
  assumes "session_get rom_id (repair_orders db) repair_order_id = Inr (Some old)"
  shows "snd (update_repair_order repair_order_id upd db)
           = db\<lparr>repair_orders :=
                  map (\<lambda>r. if rom_id r = repair_order_id then apply_update upd old else r)
                    (repair_orders db)\<rparr>"
    and "session_get rom_id (repair_orders (snd (update_repair_order repair_order_id upd db)))
           repair_order_id = Inr (Some (apply_update upd old))"
proof -
  from assms have i: "rom_id old = repair_order_id"
    by (simp add: session_get_Some_pk)
  with assms show 1: "snd (update_repair_order repair_order_id upd db)
           = db\<lparr>repair_orders :=
                  map (\<lambda>r. if rom_id r = repair_order_id then apply_update upd old else r)
                    (repair_orders db)\<rparr>"
    by (simp add: update_repair_order_def Let_def)
  from i have "rom_id (apply_update upd old) = repair_order_id"
    by (simp add: apply_update_fields)
  with assms show "session_get rom_id
      (repair_orders (snd (update_repair_order repair_order_id upd db)))
      repair_order_id = Inr (Some (apply_update upd old))"
    unfolding 1 by (simp add: session_get_replaced)
qed

text \<open>
  C4. Updating an existing order stores the status and the description the update
  carries and keeps the stored one where the update carries none; the order's id,
  client, car, employee and creation stamp, and its association rows, stay as they
  were. With only a status in the update, the description stays.
\<close>

theorem update_changes_only_given_fields:
  assumes "session_get rom_id (repair_orders db) repair_order_id = Inr (Some old)"
  shows "\<exists>response db' new.
           update_repair_order repair_order_id repair_order_update db = (response, db')
           \<and> session_get rom_id (repair_orders db') repair_order_id = Inr (Some new)
           \<and> rom_status new = (case rou_status repair_order_update of
                                  None \<Rightarrow> rom_status old | Some s \<Rightarrow> s)
           \<and> rom_description new = (case rou_description repair_order_update of
                                       None \<Rightarrow> rom_description old | Some d \<Rightarrow> Some d)
           \<and> rom_id new = rom_id old
           \<and> rom_client_name new = rom_client_name old
           \<and> rom_client_phone new = rom_client_phone old
           \<and> rom_car_make new = rom_car_make old
           \<and> rom_car_model new = rom_car_model old
           \<and> rom_car_plate new = rom_car_plate old
           \<and> rom_employee_id new = rom_employee_id old
           \<and> rom_created_at new = rom_created_at old
           \<and> repair_order_services db' = repair_order_services db
           \<and> load_services db' repair_order_id = load_services db repair_order_id"
proof -
  obtain response db' where r:
    "update_repair_order repair_order_id repair_order_update db = (response, db')"
    by (cases "update_repair_order repair_order_id repair_order_update db")
  from update_repair_order_existing [OF assms, of repair_order_update] r
  have db': "db' = db\<lparr>repair_orders :=
                  map (\<lambda>r. if rom_id r = repair_order_id
                            then apply_update repair_order_update old else r)
                    (repair_orders db)\<rparr>"
    and g: "session_get rom_id (repair_orders db') repair_order_id
              = Inr (Some (apply_update repair_order_update old))"
    by simp_all
  from db' have s: "repair_order_services db' = repair_order_services db" by simp
  then have "load_services db' repair_order_id = load_services db repair_order_id"
    by (simp add: load_services_def)
  with r g s show ?thesis
    by (simp add: apply_update_fields)
qed

theorem update_changes_only_given_fields_witness:
  "session_get rom_id (repair_orders db1) 1 = Inr (Some order1)
   \<and> (\<exists>response db' new.
         update_repair_order 1 status_only db1 = (response, db')
         \<and> session_get rom_id (repair_orders db') 1 = Inr (Some new)
         \<and> rom_status new = ''Done''
         \<and> rom_description new = Some ''brakes''
         \<and> rom_client_name new = ''Ann''
         \<and> repair_order_services db' = repair_order_services db1)"
proof -
  have g: "session_get rom_id (repair_orders db1) 1 = Inr (Some order1)"
    by (simp add: session_get_def db1_def order1_def int64_def)
  from update_changes_only_given_fields [OF g, of status_only]
  show ?thesis using g
    by (simp add: status_only_def order1_def) blast
qed

text \<open>
  C10. In the body of an update request an explicit \<open>null\<close> for \<open>status\<close> or for
  \<open>description\<close> has the effect of leaving the key out; the stored value stays. Hence
  no update request turns a stored description into \<open>None\<close>.
\<close>

theorem null_is_omission:
  assumes "session_get rom_id (repair_orders db) repair_order_id = Inr (Some old)"
  shows "put_repair_order repair_order_id (body\<lparr>body_status := Null\<rparr>) db
           = put_repair_order repair_order_id (body\<lparr>body_status := Absent\<rparr>) db
         \<and> put_repair_order repair_order_id (body\<lparr>body_description := Null\<rparr>) db
           = put_repair_order repair_order_id (body\<lparr>body_description := Absent\<rparr>) db
         \<and> (\<exists>new. session_get rom_id
                     (repair_orders (snd (put_repair_order repair_order_id body db)))
                     repair_order_id = Inr (Some new)
               \<and> (body_status body = Null \<longrightarrow> rom_status new = rom_status old)
               \<and> (body_description body = Null \<longrightarrow> rom_description new = rom_description old)
               \<and> (rom_description old \<noteq> None \<longrightarrow> rom_description new \<noteq> None))"
proof -
  let ?upd = "RepairOrderUpdate_validate body"
  have n: "RepairOrderUpdate_validate (body\<lparr>body_status := Null\<rparr>)
             = RepairOrderUpdate_validate (body\<lparr>body_status := Absent\<rparr>)"
      "RepairOrderUpdate_validate (body\<lparr>body_description := Null\<rparr>)
             = RepairOrderUpdate_validate (body\<lparr>body_description := Absent\<rparr>)"
    by (simp_all add: RepairOrderUpdate_validate_def)
  have g: "session_get rom_id
             (repair_orders (snd (put_repair_order repair_order_id body db))) repair_order_id
           = Inr (Some (apply_update ?upd old))"
    unfolding put_repair_order_def by (rule update_repair_order_existing(2) [OF assms])
  have s: "body_status body = Null \<Longrightarrow> rom_status (apply_update ?upd old) = rom_status old"
    by (simp add: apply_update_fields RepairOrderUpdate_validate_def)
  have d: "body_description body = Null \<Longrightarrow>
             rom_description (apply_update ?upd old) = rom_description old"
    by (simp add: apply_update_fields RepairOrderUpdate_validate_def)
  have k: "rom_description old \<noteq> None \<Longrightarrow> rom_description (apply_update ?upd old) \<noteq> None"
    by (simp add: apply_update_fields split: option.splits)
  from n g s d k show ?thesis
    by (simp add: put_repair_order_def)
qed

theorem null_is_omission_witness:
  "session_get rom_id (repair_orders db1) 1 = Inr (Some order1)
   \<and> body_status null_body = Null \<and> body_description null_body = Null
   \<and> rom_description order1 \<noteq> None
   \<and> (\<exists>new. session_get rom_id (repair_orders (snd (put_repair_order 1 null_body db1))) 1
               = Inr (Some new)
         \<and> rom_status new = rom_status order1
         \<and> rom_description new = rom_description order1
         \<and> rom_description new \<noteq> None)"
proof -
  have g: "session_get rom_id (repair_orders db1) 1 = Inr (Some order1)"
    by (simp add: session_get_def db1_def order1_def int64_def)
  have b: "body_status null_body = Null" "body_description null_body = Null"
      "rom_description order1 \<noteq> None"
    by (simp_all add: null_body_def order1_def)
  from null_is_omission [OF g, of null_body] b g show ?thesis
    by auto
qed

section \<open>The serializer of service\_ids (C5)\<close>

lemma service_id_comprehension_rows:
  "service_id_comprehension (map PyRow rows) = Inr (map ros_service_id rows)"
  by (induction rows) simp_all

lemma service_id_comprehension_raises:
  "(\<exists>e. service_id_comprehension xs = Inl e) \<longleftrightarrow> list_ex (\<lambda>x. \<not> is_row x) xs"
proof (induction xs)
  case Nil
  show ?case by simp
next
  case (Cons x xs)
  show ?case
  proof (cases x)
    case (PyRow r)
    with Cons.IH show ?thesis
      by (cases "service_id_comprehension xs") auto
  qed simp_all
qed

lemma service_id_comprehension_error:
  "service_id_comprehension xs = Inl e \<Longrightarrow> e = AttributeError"
proof (induction xs)
  case Nil
  then show ?case by simp
next
  case (Cons x xs)
  then show ?case
    by (cases x; cases "service_id_comprehension xs") auto
qed

text \<open>
  C5, as the code has it. Handed the list of an order's association rows, the
  serializer returns their service ids in order; handed anything that is not a list,
  it returns the empty list. It raises exactly when handed a list with an element that
  is not an association row, and then the error is AttributeError.
\<close>

theorem serialize_service_ids_result:
  "serialize_service_ids (PyList (map PyRow rows)) = Inr (map ros_service_id rows)
   \<and> (\<not> is_list v \<longrightarrow> serialize_service_ids v = Inr [])
   \<and> ((\<exists>e. serialize_service_ids v = Inl e)
        \<longleftrightarrow> (\<exists>xs. v = PyList xs \<and> list_ex (\<lambda>x. \<not> is_row x) xs))
   \<and> (\<forall>e. serialize_service_ids v = Inl e \<longrightarrow> e = AttributeError)"
proof (intro conjI)
  show "serialize_service_ids (PyList (map PyRow rows)) = Inr (map ros_service_id rows)"
    by (simp add: service_id_comprehension_rows)
  show "\<not> is_list v \<longrightarrow> serialize_service_ids v = Inr []"
    by (cases v) simp_all
  show "(\<exists>e. serialize_service_ids v = Inl e)
        \<longleftrightarrow> (\<exists>xs. v = PyList xs \<and> list_ex (\<lambda>x. \<not> is_row x) xs)"
    by (cases v) (simp_all add: service_id_comprehension_raises)
  show "\<forall>e. serialize_service_ids v = Inl e \<longrightarrow> e = AttributeError"
    by (cases v) (auto dest: service_id_comprehension_error)
qed

theorem serialize_service_ids_result_witness:
  "serialize_service_ids
       (PyList (map PyRow [\<lparr>ros_id = 1, ros_service_id = 4, ros_repair_order_id = 1\<rparr>,
                            \<lparr>ros_id = 2, ros_service_id = 9, ros_repair_order_id = 1\<rparr>]))
     = Inr [4, 9]
   \<and> \<not> is_list PyNone
   \<and> serialize_service_ids PyNone = Inr []
   \<and> \<not> is_list (PyTuple [PyRow \<lparr>ros_id = 1, ros_service_id = 4, ros_repair_order_id = 1\<rparr>])
   \<and> serialize_service_ids
         (PyTuple [PyRow \<lparr>ros_id = 1, ros_service_id = 4, ros_repair_order_id = 1\<rparr>])
       = Inr []
   \<and> serialize_service_ids (PyList [PyStr ''x'']) = Inl AttributeError"
  using serialize_service_ids_result
    [of "[\<lparr>ros_id = 1, ros_service_id = 4, ros_repair_order_id = 1\<rparr>,
          \<lparr>ros_id = 2, ros_service_id = 9, ros_repair_order_id = 1\<rparr>]" PyNone]
    serialize_service_ids_result
    [of "[]" "PyTuple [PyRow \<lparr>ros_id = 1, ros_service_id = 4, ros_repair_order_id = 1\<rparr>]"]
    serialize_service_ids_result [of "[]" "PyList [PyStr ''x'']"]
  by simp

text \<open>
  C5 as the specification words it fails: the serializer does raise for one shape, a
  list of integers, which is what the type \<open>List[int]\<close> of the field
  \<open>service_ids\<close> admits.
\<close>

theorem serialize_service_ids_counterexample:
  "serialize_service_ids (PyList [PyInt 1]) = Inl AttributeError"
  by simp

section \<open>Deleting an order (C9)\<close>

lemma delete_repair_order_without_services:
  assumes "session_get rom_id (repair_orders db) repair_order_id = Inr (Some repair_order)"
      and "load_services db repair_order_id = []"
  shows "delete_repair_order repair_order_id db
           = (Inr (True, repair_order_deleted),
              db\<lparr>repair_orders := session_delete rom_id (repair_orders db) repair_order_id\<rparr>)"
proof -
  from assms(1) have "rom_id repair_order = repair_order_id"
    by (simp add: session_get_Some_pk)
  with assms show ?thesis
    by (simp add: delete_repair_order_def delete_and_commit_def)
qed

lemma delete_repair_order_with_services:
  assumes "session_get rom_id (repair_orders db) repair_order_id = Inr (Some repair_order)"
      and "load_services db repair_order_id \<noteq> []"
  shows "delete_repair_order repair_order_id db = (Inl IntegrityError, db)"
proof -
  from assms(1) have "rom_id repair_order = repair_order_id"
    by (simp add: session_get_Some_pk)
  with assms show ?thesis
    by (simp add: delete_repair_order_def delete_and_commit_def)
qed

lemma delete_repair_order_keeps_services:
  "repair_order_services (snd (delete_repair_order repair_order_id db))
     = repair_order_services db"
  by (simp add: delete_repair_order_def delete_and_commit_def split: option.splits sum.splits)

text \<open>
  C9, evaluated. Order 1 of \<open>db1\<close> exists and has one association row. Deleting it
  raises at the commit and removes nothing: the order row is still there.
\<close>

theorem delete_order_with_services_fails:
  "session_get rom_id (repair_orders db1) 1 = Inr (Some order1)
   \<and> load_services db1 1 = [\<lparr>ros_id = 1, ros_service_id = 1, ros_repair_order_id = 1\<rparr>]
   \<and> delete_repair_order 1 db1 = (Inl IntegrityError, db1)"
proof -
  have g: "session_get rom_id (repair_orders db1) 1 = Inr (Some order1)"
    by (simp add: session_get_def db1_def order1_def int64_def)
  have l: "load_services db1 1 = [\<lparr>ros_id = 1, ros_service_id = 1, ros_repair_order_id = 1\<rparr>]"
    by (simp add: load_services_def db1_def)
  then have "load_services db1 1 \<noteq> []" by simp
  with g have "delete_repair_order 1 db1 = (Inl IntegrityError, db1)"
    by (rule delete_repair_order_with_services)
  with g l show ?thesis by simp
qed

end
